theory Spec2Isabelle
  imports Complex_Main
begin

section \<open>The Vault ledger (src/vault/vault.py)\<close>

text \<open>
  The class \<open>Vault\<close> keeps two SQLite tables. Table \<open>data\<close> holds one row
  \<open>(name, time, balance)\<close> per account, \<open>name\<close> being the primary key and
  \<open>balance\<close> carrying the constraint \<open>check (balance >= 0)\<close>. Table \<open>log\<close>
  holds one row \<open>(id, time, debit, credit, amount)\<close> per logged operation, \<open>id\<close>
  being the primary key.

  Modelling decisions.
  \<^item> A table is the list of its rows in insertion order, which is the order in which
    \<open>select * from ...\<close> scans a rowid table that never deletes.
  \<^item> A \<open>Decimal\<close> is its numeric value, a rational number, and sums and differences
    are exact: the amounts are finite decimals whose results fit the precision of the
    decimal context. The text written to the table (\<open>str(balance)\<close>) and read back
    (\<open>Decimal(balance)\<close>) denotes the same value.
  \<^item> \<open>int(time.time())\<close> and \<open>uuid.uuid4()\<close> are inputs of the operation that
    uses them (\<open>now\<close> and \<open>uid\<close>).
  \<^item> An exception is a value of type \<open>error\<close>. Every operation returns its outcome
    together with the state it leaves, because each statement is committed on its own
    (\<open>__execute\<close>): a statement that fails after an earlier one succeeded leaves the
    earlier write in place.
  \<^item> Account names and operator labels are spliced into some statements as text; they are
    taken to be plain names, without quote characters.
\<close>

subsection \<open>State and errors\<close>

type_synonym data_row = "string \<times> int \<times> rat"

type_synonym log_row = "string \<times> int \<times> string \<times> string \<times> rat"

record vault =
  data_tbl :: "data_row list"
  log_tbl :: "log_row list"

datatype error =
    AccountNotExistsError
  | AmountIllegalError
  | InsufficientBalanceError
  | IntegrityError
  | KeyError

type_synonym 'a outcome = "(error + 'a) \<times> vault"

text \<open>The state right after \<open>__connect\<close> on a new database file: both tables empty.\<close>

definition empty_vault :: vault where
  "empty_vault = \<lparr>data_tbl = [], log_tbl = []\<rparr>"

subsection \<open>Database layer\<close>

text \<open>
  \<open>__get_all_data\<close>: the dictionary \<open>{name: {'time': t, 'balance': Decimal(balance)}}\<close>
  built from the rows, kept as the list of its items in row order.
\<close>

definition get_all_data :: "vault \<Rightarrow> (string \<times> (int \<times> rat)) list" where
  "get_all_data v = map (\<lambda>(name, t, balance). (name, (t, balance))) (data_tbl v)"

text \<open>\<open>__get_balance\<close> and \<open>__get_open_time\<close>: a dictionary subscript, which raises
  \<open>KeyError\<close> on a missing name.\<close>

definition get_balance_raw :: "vault \<Rightarrow> string \<Rightarrow> error + rat" where
  "get_balance_raw v name =
     (case map_of (get_all_data v) name of
        None \<Rightarrow> Inl KeyError
      | Some d \<Rightarrow> Inr (snd d))"

definition get_open_time_raw :: "vault \<Rightarrow> string \<Rightarrow> error + int" where
  "get_open_time_raw v name =
     (case map_of (get_all_data v) name of
        None \<Rightarrow> Inl KeyError
      | Some d \<Rightarrow> Inr (fst d))"

definition get_log :: "vault \<Rightarrow> log_row list" where
  "get_log v = log_tbl v"

text \<open>
  \<open>__set_balance\<close>: \<open>update data set balance=? where name=?\<close>. The statement rewrites
  the rows whose name matches. The table's \<open>check (balance >= 0)\<close> is evaluated on each
  rewritten row; when it fails the statement is aborted with \<open>sqlite3.IntegrityError\<close>
  and no row changes. With no matching row nothing is rewritten and nothing is checked.
\<close>

definition update_rows :: "string \<Rightarrow> rat \<Rightarrow> data_row list \<Rightarrow> data_row list" where
  "update_rows name balance rows =
     map (\<lambda>(n, t, b). if n = name then (n, t, balance) else (n, t, b)) rows"

definition set_balance :: "string \<Rightarrow> rat \<Rightarrow> vault \<Rightarrow> unit outcome" where
  "set_balance name balance v =
     (if (\<exists>r \<in> set (data_tbl v). fst r = name) \<and> \<not> (balance \<ge> 0)
      then (Inl IntegrityError, v)
      else (Inr (), v\<lparr>data_tbl := update_rows name balance (data_tbl v)\<rparr>))"

text \<open>
  \<open>__log\<close>: \<open>insert into log values(uuid4, now, debit, credit, str(amount))\<close>. The
  primary key on \<open>id\<close> aborts the insertion of an id that is already there.
\<close>

definition log_entry :: "string \<Rightarrow> int \<Rightarrow> string \<Rightarrow> string \<Rightarrow> rat \<Rightarrow> vault \<Rightarrow> unit outcome" where
  "log_entry uid now debit credit amount v =
     (if uid \<in> set (map fst (log_tbl v))
      then (Inl IntegrityError, v)
      else (Inr (), v\<lparr>log_tbl := log_tbl v @ [(uid, now, debit, credit, amount)]\<rparr>))"

subsection \<open>API\<close>

definition is_account :: "vault \<Rightarrow> string \<Rightarrow> bool" where
  "is_account v name = (name \<in> set (map fst (get_all_data v)))"

text \<open>\<open>create_account\<close>: inserts \<open>(name, now, '0.00')\<close> unless the name is a key of
  \<open>__get_all_data()\<close>.\<close>

definition create_account :: "string \<Rightarrow> int \<Rightarrow> vault \<Rightarrow> unit outcome" where
  "create_account name now v =
     (if name \<notin> set (map fst (get_all_data v))
      then (Inr (), v\<lparr>data_tbl := data_tbl v @ [(name, now, 0)]\<rparr>)
      else (Inr (), v))"

definition get_open_time :: "vault \<Rightarrow> string \<Rightarrow> error + int" where
  "get_open_time v name =
     (if \<not> is_account v name then Inl AccountNotExistsError
      else get_open_time_raw v name)"

definition get_balance :: "vault \<Rightarrow> string \<Rightarrow> error + rat" where
  "get_balance v name =
     (if \<not> is_account v name then Inl AccountNotExistsError
      else get_balance_raw v name)"

definition get_logs :: "vault \<Rightarrow> log_row list" where
  "get_logs v = get_log v"

text \<open>
  \<open>sorted(items, key=..., reverse=True)\<close>: Python sorts stably and keeps, also with
  \<open>reverse=True\<close>, items with equal keys in their original order. It does so by
  reversing the list, sorting it stably in ascending order and reversing the result.
\<close>

definition sorted_reverse :: "('a \<Rightarrow> 'k::linorder) \<Rightarrow> 'a list \<Rightarrow> 'a list" where
  "sorted_reverse key xs = rev (sort_key key (rev xs))"

text \<open>\<open>get_ranking\<close>: the dictionary \<open>name \<rightarrow> balance\<close> in the order of the sorted
  items, kept as the list of its items.\<close>

definition get_ranking :: "vault \<Rightarrow> (string \<times> rat) list" where
  "get_ranking v =
     (let data = map (\<lambda>(a, b). (a, snd b)) (get_all_data v)
      in sorted_reverse (\<lambda>d. snd d) data)"

definition give :: "string \<Rightarrow> rat \<Rightarrow> string \<Rightarrow> string \<Rightarrow> int \<Rightarrow> vault \<Rightarrow> unit outcome" where
  "give name amount operator uid now v =
     (if \<not> is_account v name then (Inl AccountNotExistsError, v)
      else if amount \<le> 0 then (Inl AmountIllegalError, v)
      else (case get_balance_raw v name of
              Inl e \<Rightarrow> (Inl e, v)
            | Inr balance_old \<Rightarrow>
                (let balance_new = balance_old + amount in
                 case set_balance name balance_new v of
                   (Inl e, v1) \<Rightarrow> (Inl e, v1)
                 | (Inr _, v1) \<Rightarrow> log_entry uid now operator name amount v1)))"

definition take_op :: "string \<Rightarrow> rat \<Rightarrow> string \<Rightarrow> string \<Rightarrow> int \<Rightarrow> vault \<Rightarrow> unit outcome" where
  "take_op name amount operator uid now v =
     (if \<not> is_account v name then (Inl AccountNotExistsError, v)
      else if amount \<le> 0 then (Inl AmountIllegalError, v)
      else (case get_balance_raw v name of
              Inl e \<Rightarrow> (Inl e, v)
            | Inr balance_now \<Rightarrow>
                if amount > balance_now then (Inl InsufficientBalanceError, v)
                else (case get_balance_raw v name of
                        Inl e \<Rightarrow> (Inl e, v)
                      | Inr balance_old \<Rightarrow>
                          (let balance_new = balance_old - amount in
                           case set_balance name balance_new v of
                             (Inl e, v1) \<Rightarrow> (Inl e, v1)
                           | (Inr _, v1) \<Rightarrow> log_entry uid now operator name (- amount) v1))))"

definition set_op :: "string \<Rightarrow> rat \<Rightarrow> string \<Rightarrow> string \<Rightarrow> int \<Rightarrow> vault \<Rightarrow> unit outcome" where
  "set_op name amount operator uid now v =
     (if \<not> is_account v name then (Inl AccountNotExistsError, v)
      else if amount < 0 then (Inl AmountIllegalError, v)
      else (case get_balance_raw v name of
              Inl e \<Rightarrow> (Inl e, v)
            | Inr balance_old \<Rightarrow>
                (case set_balance name amount v of
                   (Inl e, v1) \<Rightarrow> (Inl e, v1)
                 | (Inr _, v1) \<Rightarrow> log_entry uid now operator name (amount - balance_old) v1)))"

definition transfer :: "string \<Rightarrow> string \<Rightarrow> rat \<Rightarrow> string \<Rightarrow> int \<Rightarrow> vault \<Rightarrow> unit outcome" where
  "transfer debit credit amount uid now v =
     (if \<not> (is_account v debit \<and> is_account v credit) then (Inl AccountNotExistsError, v)
      else if amount \<le> 0 then (Inl AmountIllegalError, v)
      else (case get_balance_raw v debit of
              Inl e \<Rightarrow> (Inl e, v)
            | Inr balance_now \<Rightarrow>
                if amount > balance_now then (Inl InsufficientBalanceError, v)
                else (case get_balance v debit of
                        Inl e \<Rightarrow> (Inl e, v)
                      | Inr debit_old \<Rightarrow>
                         (case get_balance v credit of
                            Inl e \<Rightarrow> (Inl e, v)
                          | Inr credit_old \<Rightarrow>
                             (let debit_new = debit_old - amount;
                                  credit_new = credit_old + amount in
                              case set_balance debit debit_new v of
                                (Inl e, v1) \<Rightarrow> (Inl e, v1)
                              | (Inr _, v1) \<Rightarrow>
                                 (case set_balance credit credit_new v1 of
                                    (Inl e, v2) \<Rightarrow> (Inl e, v2)
                                  | (Inr _, v2) \<Rightarrow> log_entry uid now debit credit amount v2))))))"

subsection \<open>Sequences of API calls\<close>

datatype call =
    CreateAccount string int
  | Give string rat string string int
  | Take string rat string string int
  | SetTo string rat string string int
  | Transfer string string rat string int

fun perform :: "call \<Rightarrow> vault \<Rightarrow> unit outcome" where
  "perform (CreateAccount name now) v = create_account name now v"
| "perform (Give name amount operator uid now) v = give name amount operator uid now v"
| "perform (Take name amount operator uid now) v = take_op name amount operator uid now v"
| "perform (SetTo name amount operator uid now) v = set_op name amount operator uid now v"
| "perform (Transfer debit credit amount uid now) v = transfer debit credit amount uid now v"

text \<open>The state after a sequence of calls, each of which returns or raises.\<close>

fun run :: "call list \<Rightarrow> vault \<Rightarrow> vault" where
  "run [] v = v"
| "run (c # cs) v = run cs (snd (perform c v))"

text \<open>The accounts a call names.\<close>

fun named :: "call \<Rightarrow> string set" where
  "named (CreateAccount name now) = {name}"
| "named (Give name amount operator uid now) = {name}"
| "named (Take name amount operator uid now) = {name}"
| "named (SetTo name amount operator uid now) = {name}"
| "named (Transfer debit credit amount uid now) = {debit, credit}"

text \<open>What the schema guarantees of table \<open>data\<close> in every stored state: names are a
  primary key and no balance is negative.\<close>

definition schema_ok :: "vault \<Rightarrow> bool" where
  "schema_ok v =
     (distinct (map fst (data_tbl v)) \<and>
      (\<forall>r \<in> set (data_tbl v). 0 \<le> snd (snd r)))"

text \<open>The outcomes that are one of the three errors the API raises by itself.\<close>

definition api_error :: "error + unit \<Rightarrow> bool" where
  "api_error r =
     (r = Inl AccountNotExistsError \<or> r = Inl AmountIllegalError \<or>
      r = Inl InsufficientBalanceError)"

text \<open>
  What the update statements of one call can do to the rows of table \<open>data\<close>: nothing,
  or rewrite, one statement after the other, the balance of a name in \<open>S\<close> to a value
  that passes the table's check.
\<close>

inductive touched :: "string set \<Rightarrow> data_row list \<Rightarrow> data_row list \<Rightarrow> bool"
  for S :: "string set" and rows :: "data_row list" where
  unchanged: "touched S rows rows"
| rewritten: "touched S rows rows' \<Longrightarrow> n \<in> S \<Longrightarrow> 0 \<le> x \<Longrightarrow>
     touched S rows (update_rows n x rows')"

section \<open>Basic facts\<close>

lemma get_all_data_rows: "get_all_data v = data_tbl v"
  by (simp add: get_all_data_def)

lemma is_account_iff: "is_account v name \<longleftrightarrow> name \<in> fst ` set (data_tbl v)"
  by (simp add: is_account_def get_all_data_rows)


lemma get_balance_raw_KeyError:
  "get_balance_raw v name = Inl e \<Longrightarrow> e = KeyError \<and> \<not> is_account v name"
  by (auto simp: get_balance_raw_def get_all_data_rows is_account_iff map_of_eq_None_iff
           split: option.splits)

lemma get_balance_account:
  "is_account v name \<Longrightarrow> get_balance v name = get_balance_raw v name"
  by (simp add: get_balance_def)

text \<open>The rows after \<open>update data set balance=x where name=k\<close>.\<close>

lemma update_keys: "map fst (update_rows k x rows) = map fst rows"
  by (induction rows) (auto simp: update_rows_def case_prod_unfold)

lemma update_map_of:
  "map_of (update_rows k x rows) k' =
     (if k' = k then map_option (\<lambda>d. (fst d, x)) (map_of rows k') else map_of rows k')"
  by (induction rows) (auto simp: update_rows_def case_prod_unfold)

lemma update_absent: "k \<notin> fst ` set rows \<Longrightarrow> update_rows k x rows = rows"
  by (induction rows) (auto simp: update_rows_def case_prod_unfold)

lemma update_nonneg:
  "0 \<le> x \<Longrightarrow> \<forall>r \<in> set rows. 0 \<le> snd (snd r) \<Longrightarrow>
     \<forall>r \<in> set (update_rows k x rows). 0 \<le> snd (snd r)"
  by (auto simp: update_rows_def case_prod_unfold)

lemma set_balance_error:
  "set_balance name balance v = (Inl e, v') \<Longrightarrow> e = IntegrityError \<and> v' = v"
  by (auto simp: set_balance_def split: if_splits)

lemma set_balance_ok:
  "0 \<le> balance \<Longrightarrow>
     set_balance name balance v =
       (Inr (), v\<lparr>data_tbl := update_rows name balance (data_tbl v)\<rparr>)"
  by (simp add: set_balance_def)

lemma log_entry_error:
  "log_entry uid now debit credit amount v = (Inl e, v') \<Longrightarrow> e = IntegrityError \<and> v' = v"
  by (auto simp: log_entry_def split: if_splits)

lemma log_entry_raises:
  "fst (log_entry uid now debit credit amount v) = Inl e \<Longrightarrow> e = IntegrityError"
  by (auto simp: log_entry_def split: if_splits)

lemma log_entry_fresh:
  "uid \<notin> fst ` set (log_tbl v) \<Longrightarrow>
     log_entry uid now debit credit amount v =
       (Inr (), v\<lparr>log_tbl := log_tbl v @ [(uid, now, debit, credit, amount)]\<rparr>)"
  by (simp add: log_entry_def)

lemma set_balance_keeps_names:
  "map fst (data_tbl (snd (set_balance name balance v))) = map fst (data_tbl v)"
  by (simp add: set_balance_def update_keys)

lemma set_balance_keeps_accounts:
  "is_account (snd (set_balance name balance v)) k = is_account v k"
  unfolding is_account_def get_all_data_rows set_balance_keeps_names ..

lemma set_balance_keeps_log:
  "log_tbl (snd (set_balance name balance v)) = log_tbl v"
  by (simp add: set_balance_def)

lemmas api_defs =
  give_def take_op_def set_op_def transfer_def create_account_def get_balance_def
  get_open_time_def get_balance_raw_def get_open_time_raw_def is_account_def
  get_all_data_def set_balance_def update_rows_def log_entry_def empty_vault_def

text \<open>An operation that raises one of the three API errors has written nothing.\<close>

lemma give_rejected:
  "api_error (fst (give name amount operator uid now v)) \<Longrightarrow>
     snd (give name amount operator uid now v) = v"
  by (auto simp: give_def api_error_def Let_def
           split: if_splits sum.splits prod.splits
           dest!: set_balance_error log_entry_raises get_balance_raw_KeyError)

lemma take_rejected:
  "api_error (fst (take_op name amount operator uid now v)) \<Longrightarrow>
     snd (take_op name amount operator uid now v) = v"
  by (auto simp: take_op_def api_error_def Let_def
           split: if_splits sum.splits prod.splits
           dest!: set_balance_error log_entry_raises get_balance_raw_KeyError)

lemma set_rejected:
  "api_error (fst (set_op name amount operator uid now v)) \<Longrightarrow>
     snd (set_op name amount operator uid now v) = v"
  by (auto simp: set_op_def api_error_def Let_def
           split: if_splits sum.splits prod.splits
           dest!: set_balance_error log_entry_raises get_balance_raw_KeyError)

lemma transfer_rejected:
  "api_error (fst (transfer debit credit amount uid now v)) \<Longrightarrow>
     snd (transfer debit credit amount uid now v) = v"
  by (auto simp: transfer_def api_error_def get_balance_def Let_def
           split: if_splits sum.splits prod.splits
           dest!: set_balance_error log_entry_raises get_balance_raw_KeyError)



lemma is_account_log [simp]:
  "is_account (v\<lparr>log_tbl := l\<rparr>) k = is_account v k"
  by (simp add: is_account_def get_all_data_rows)

lemma get_balance_raw_log [simp]:
  "get_balance_raw (v\<lparr>log_tbl := l\<rparr>) k = get_balance_raw v k"
  by (simp add: get_balance_raw_def get_all_data_rows)

lemma schema_balance:
  "schema_ok v \<Longrightarrow> get_balance_raw v name = Inr b \<Longrightarrow> 0 \<le> b"
  by (auto simp: schema_ok_def get_balance_raw_def get_all_data_rows
           split: option.splits dest!: map_of_SomeD)




lemma transfer_success:
  assumes "is_account v debit" and "is_account v credit" and "0 < amount"
    and "get_balance_raw v debit = Inr bd" and "amount \<le> bd"
    and "get_balance_raw v credit = Inr bc" and "0 \<le> bc + amount"
    and "uid \<notin> fst ` set (log_tbl v)"
  shows "transfer debit credit amount uid now v =
    (Inr (), v\<lparr>data_tbl := update_rows credit (bc + amount)
                               (update_rows debit (bd - amount) (data_tbl v)),
                log_tbl := log_tbl v @ [(uid, now, debit, credit, amount)]\<rparr>)"
  using assms
  by (simp add: transfer_def get_balance_def set_balance_ok log_entry_fresh)

subsection \<open>What one call and a sequence of calls do to the accounts\<close>

lemma touched_keys: "touched S rows rows' \<Longrightarrow> map fst rows' = map fst rows"
  by (induction rule: touched.induct) (simp_all add: update_keys)

lemma touched_nonneg:
  "touched S rows rows' \<Longrightarrow> \<forall>r \<in> set rows. 0 \<le> snd (snd r) \<Longrightarrow>
     \<forall>r \<in> set rows'. 0 \<le> snd (snd r)"
  by (induction rule: touched.induct) (simp_all add: update_nonneg)



lemma log_entry_data: "data_tbl (snd (log_entry uid now debit credit amount v)) = data_tbl v"
  by (simp add: log_entry_def)

lemma set_balance_touched:
  assumes "n \<in> S" and "touched S rows (data_tbl v)"
  shows "touched S rows (data_tbl (snd (set_balance n x v)))"
proof (cases "0 \<le> x")
  case True
  with assms show ?thesis
    by (simp add: set_balance_ok touched.rewritten)
next
  case False
  then have "snd (set_balance n x v) = v"
    by (cases "n \<in> fst ` set (data_tbl v)")
       (auto simp: set_balance_def update_absent)
  with assms show ?thesis by simp
qed

lemma then_log_data:
  "data_tbl (snd (case r of (Inl e, v1) \<Rightarrow> (Inl e, v1)
                          | (Inr u, v1) \<Rightarrow> log_entry uid now debit credit amount v1))
     = data_tbl (snd r)"
  by (cases r; cases "fst r") (auto simp: log_entry_data)

lemma give_touched:
  "touched {name} (data_tbl v) (data_tbl (snd (give name amount operator uid now v)))"
  by (auto simp: give_def Let_def then_log_data touched.unchanged
           intro!: set_balance_touched split: sum.splits)

lemma take_touched:
  "touched {name} (data_tbl v) (data_tbl (snd (take_op name amount operator uid now v)))"
  by (auto simp: take_op_def Let_def then_log_data touched.unchanged
           intro!: set_balance_touched split: sum.splits)

lemma set_touched:
  "touched {name} (data_tbl v) (data_tbl (snd (set_op name amount operator uid now v)))"
  by (auto simp: set_op_def Let_def then_log_data touched.unchanged
           intro!: set_balance_touched split: sum.splits)

lemma two_updates_touched:
  "touched {debit, credit} (data_tbl v)
     (data_tbl (snd (case set_balance debit x v of
                       (Inl e, v1) \<Rightarrow> (Inl e, v1)
                     | (Inr u, v1) \<Rightarrow>
                         (case set_balance credit y v1 of
                            (Inl e, v2) \<Rightarrow> (Inl e, v2)
                          | (Inr u, v2) \<Rightarrow> log_entry uid now debit credit amount v2))))"
proof -
  have first: "touched {debit, credit} (data_tbl v) (data_tbl (snd (set_balance debit x v)))"
    by (rule set_balance_touched) (simp_all add: touched.unchanged)
  obtain r v1 where r: "set_balance debit x v = (r, v1)"
    by (cases "set_balance debit x v")
  show ?thesis
  proof (cases r)
    case (Inl e)
    with first r show ?thesis by simp
  next
    case (Inr u)
    have "touched {debit, credit} (data_tbl v) (data_tbl (snd (set_balance credit y v1)))"
      using first r by (intro set_balance_touched) simp_all
    with r Inr show ?thesis
      by (simp add: then_log_data)
  qed
qed

lemma transfer_touched:
  "touched {debit, credit} (data_tbl v)
     (data_tbl (snd (transfer debit credit amount uid now v)))"
  by (auto simp: transfer_def Let_def two_updates_touched touched.unchanged
           split: sum.splits)


text \<open>The rows of table \<open>data\<close> after one API call.\<close>

lemma perform_rows:
  "touched (named c) (data_tbl v) (data_tbl (snd (perform c v))) \<or>
   (\<exists>name now. c = CreateAccount name now \<and> name \<notin> fst ` set (data_tbl v) \<and>
      data_tbl (snd (perform c v)) = data_tbl v @ [(name, now, 0)])"
proof (cases c)
  case (CreateAccount name now)
  then show ?thesis
    by (auto simp: create_account_def get_all_data_rows touched.unchanged)
qed (simp_all add: give_touched take_touched set_touched transfer_touched)

lemma get_balance_map_of:
  "get_balance v k =
     (case map_of (data_tbl v) k of None \<Rightarrow> Inl AccountNotExistsError | Some d \<Rightarrow> Inr (snd d))"
proof (cases "map_of (data_tbl v) k")
  case None
  then have absent: "k \<notin> fst ` set (data_tbl v)"
    by (simp add: map_of_eq_None_iff)
  show ?thesis
    unfolding None using absent by (simp add: get_balance_def is_account_iff)
next
  case (Some d)
  then have "k \<in> fst ` set (data_tbl v)"
    by (metis map_of_eq_None_iff option.distinct(1))
  with Some show ?thesis
    by (simp add: get_balance_def get_balance_raw_def get_all_data_rows is_account_iff)
qed


lemma perform_nonneg:
  assumes "\<forall>r \<in> set (data_tbl v). 0 \<le> snd (snd r)"
  shows "\<forall>r \<in> set (data_tbl (snd (perform c v))). 0 \<le> snd (snd r)"
  using perform_rows [of c v] assms by (auto dest: touched_nonneg)

lemma perform_distinct:
  assumes "distinct (map fst (data_tbl v))"
  shows "distinct (map fst (data_tbl (snd (perform c v))))"
  using perform_rows [of c v] assms by (auto dest: touched_keys)




lemma run_nonneg:
  "\<forall>r \<in> set (data_tbl v). 0 \<le> snd (snd r) \<Longrightarrow>
     \<forall>r \<in> set (data_tbl (run cs v)). 0 \<le> snd (snd r)"
proof (induction cs arbitrary: v)
  case Nil
  then show ?case by simp
next
  case (Cons c cs)
  from Cons.prems have "\<forall>r \<in> set (data_tbl (snd (perform c v))). 0 \<le> snd (snd r)"
    by (rule perform_nonneg)
  then show ?case
    using Cons.IH by simp
qed

lemma run_distinct:
  "distinct (map fst (data_tbl v)) \<Longrightarrow> distinct (map fst (data_tbl (run cs v)))"
  by (induction cs arbitrary: v) (simp_all add: perform_distinct)


text \<open>Every state reached from the empty ledger satisfies the constraints of the schema.\<close>

lemma run_schema_ok: "schema_ok v \<Longrightarrow> schema_ok (run cs v)"
  unfolding schema_ok_def using run_distinct run_nonneg by blast

lemma reachable_schema_ok: "schema_ok (run cs empty_vault)"
  by (rule run_schema_ok) (simp add: schema_ok_def empty_vault_def)

subsection \<open>Sorting for the ranking\<close>

lemma sorted_reverse_set: "set (sorted_reverse key xs) = set xs"
  by (simp add: sorted_reverse_def)

lemma sorted_reverse_distinct: "distinct (sorted_reverse key xs) = distinct xs"
  by (simp add: sorted_reverse_def)

lemma sorted_reverse_descending:
  "sorted_wrt (\<lambda>x y. x \<ge> y) (map key (sorted_reverse key xs))"
proof -
  have "sorted (map key (sort_key key (rev xs)))"
    by (rule sorted_sort_key)
  then have "sorted_wrt (\<lambda>x y. x \<ge> y) (rev (map key (sort_key key (rev xs))))"
    by (simp add: sorted_wrt_rev)
  then show ?thesis
    by (simp add: sorted_reverse_def rev_map)
qed

lemma sorted_reverse_stable:
  "filter (\<lambda>d. key d = k) (sorted_reverse key xs) = filter (\<lambda>d. key d = k) xs"
proof -
  have "filter (\<lambda>d. key d = k) (sorted_reverse key xs)
          = rev (filter (\<lambda>d. key d = k) (sort_key key (rev xs)))"
    by (simp add: sorted_reverse_def rev_filter)
  also have "\<dots> = rev (filter (\<lambda>d. key d = k) (rev xs))"
    by (simp only: sort_key_stable)
  also have "\<dots> = filter (\<lambda>d. key d = k) xs"
    by (simp add: rev_filter [symmetric])
  finally show ?thesis .
qed

lemma get_ranking_items:
  "get_ranking v = sorted_reverse snd (map (\<lambda>(n, t, b). (n, b)) (data_tbl v))"
  by (simp add: get_ranking_def get_all_data_rows case_prod_unfold)

section \<open>Properties of the ledger\<close>





text \<open>
  C3. A call of \<open>give\<close>, \<open>take\<close>, \<open>set\<close> or \<open>transfer\<close> that raises
  \<open>AccountNotExistsError\<close>, \<open>AmountIllegalError\<close> or \<open>InsufficientBalanceError\<close>
  leaves the whole state (both tables) exactly as it was.
\<close>

theorem rejection_leaves_state_untouched:
  "(api_error (fst (give name amount operator uid now v)) \<longrightarrow>
      snd (give name amount operator uid now v) = v) \<and>
   (api_error (fst (take_op name amount operator uid now v)) \<longrightarrow>
      snd (take_op name amount operator uid now v) = v) \<and>
   (api_error (fst (set_op name amount operator uid now v)) \<longrightarrow>
      snd (set_op name amount operator uid now v) = v) \<and>
   (api_error (fst (transfer debit credit amount uid now v)) \<longrightarrow>
      snd (transfer debit credit amount uid now v) = v)"
  by (simp add: give_rejected take_rejected set_rejected transfer_rejected)

theorem rejection_leaves_state_untouched_witness:
  "api_error (fst (give ''p1'' (-1) ''Admin'' ''u'' 9 \<lparr>data_tbl = [(''p1'', 3, 60)], log_tbl = []\<rparr>)) \<and>
   api_error (fst (take_op ''p1'' 1000 ''Admin'' ''u'' 9 \<lparr>data_tbl = [(''p1'', 3, 60)], log_tbl = []\<rparr>)) \<and>
   api_error (fst (set_op ''p1'' (-1) ''Admin'' ''u'' 9 \<lparr>data_tbl = [(''p1'', 3, 60)], log_tbl = []\<rparr>)) \<and>
   api_error (fst (transfer ''p1'' ''p2'' 1000 ''u'' 9 \<lparr>data_tbl = [(''p1'', 3, 60)], log_tbl = []\<rparr>)) \<and>
   snd (give ''p1'' (-1) ''Admin'' ''u'' 9 \<lparr>data_tbl = [(''p1'', 3, 60)], log_tbl = []\<rparr>) =
     \<lparr>data_tbl = [(''p1'', 3, 60)], log_tbl = []\<rparr> \<and>
   snd (take_op ''p1'' 1000 ''Admin'' ''u'' 9 \<lparr>data_tbl = [(''p1'', 3, 60)], log_tbl = []\<rparr>) =
     \<lparr>data_tbl = [(''p1'', 3, 60)], log_tbl = []\<rparr> \<and>
   snd (set_op ''p1'' (-1) ''Admin'' ''u'' 9 \<lparr>data_tbl = [(''p1'', 3, 60)], log_tbl = []\<rparr>) =
     \<lparr>data_tbl = [(''p1'', 3, 60)], log_tbl = []\<rparr> \<and>
   snd (transfer ''p1'' ''p2'' 1000 ''u'' 9 \<lparr>data_tbl = [(''p1'', 3, 60)], log_tbl = []\<rparr>) =
     \<lparr>data_tbl = [(''p1'', 3, 60)], log_tbl = []\<rparr>"
proof -
  let ?v = "\<lparr>data_tbl = [(''p1'', 3, 60)], log_tbl = []\<rparr>"
  have g: "api_error (fst (give ''p1'' (-1) ''Admin'' ''u'' 9 ?v))"
    by (simp add: api_defs api_error_def)
  have t: "api_error (fst (take_op ''p1'' 1000 ''Admin'' ''u'' 9 ?v))"
    by (simp add: api_defs api_error_def)
  have s: "api_error (fst (set_op ''p1'' (-1) ''Admin'' ''u'' 9 ?v))"
    by (simp add: api_defs api_error_def)
  have x: "api_error (fst (transfer ''p1'' ''p2'' 1000 ''u'' 9 ?v))"
    by (simp add: api_defs api_error_def)
  show ?thesis
    using g t s x
      rejection_leaves_state_untouched [of "''p1''" "-1" "''Admin''" "''u''" 9 ?v "''p1''" "''p2''"]
      rejection_leaves_state_untouched [of "''p1''" 1000 "''Admin''" "''u''" 9 ?v "''p1''" "''p2''"]
    by blast
qed

text \<open>
  C4. The checks run in a fixed order: existence of the account(s), then the sign of
  the amount, then (for \<open>take\<close> and \<open>transfer\<close>) the funds. The error raised is that
  of the first check that fails, whatever the later checks would say: a missing account
  gives \<open>AccountNotExistsError\<close> for every amount; on existing accounts an illegal
  amount gives \<open>AmountIllegalError\<close> for every balance; only then an amount above the
  balance gives \<open>InsufficientBalanceError\<close>.
\<close>

theorem validation_order:
  "(\<not> is_account v name \<longrightarrow>
      fst (give name amount operator uid now v) = Inl AccountNotExistsError \<and>
      fst (take_op name amount operator uid now v) = Inl AccountNotExistsError \<and>
      fst (set_op name amount operator uid now v) = Inl AccountNotExistsError) \<and>
   (\<not> (is_account v debit \<and> is_account v credit) \<longrightarrow>
      fst (transfer debit credit amount uid now v) = Inl AccountNotExistsError) \<and>
   (is_account v name \<and> amount \<le> 0 \<longrightarrow>
      fst (give name amount operator uid now v) = Inl AmountIllegalError \<and>
      fst (take_op name amount operator uid now v) = Inl AmountIllegalError) \<and>
   (is_account v name \<and> amount < 0 \<longrightarrow>
      fst (set_op name amount operator uid now v) = Inl AmountIllegalError) \<and>
   (is_account v debit \<and> is_account v credit \<and> amount \<le> 0 \<longrightarrow>
      fst (transfer debit credit amount uid now v) = Inl AmountIllegalError) \<and>
   (is_account v name \<and> 0 < amount \<and> get_balance v name = Inr b \<and> b < amount \<longrightarrow>
      fst (take_op name amount operator uid now v) = Inl InsufficientBalanceError) \<and>
   (is_account v debit \<and> is_account v credit \<and> 0 < amount \<and>
    get_balance v debit = Inr b \<and> b < amount \<longrightarrow>
      fst (transfer debit credit amount uid now v) = Inl InsufficientBalanceError)"
  by (simp add: give_def take_op_def set_op_def transfer_def get_balance_def)

theorem validation_order_witness:
  "fst (take_op ''ghost'' (-1) ''Admin'' ''u'' 9 \<lparr>data_tbl = [(''p1'', 3, 60)], log_tbl = []\<rparr>)
     = Inl AccountNotExistsError \<and>
   fst (transfer ''p1'' ''ghost'' (-1) ''u'' 9 \<lparr>data_tbl = [(''p1'', 3, 60)], log_tbl = []\<rparr>)
     = Inl AccountNotExistsError \<and>
   fst (take_op ''p1'' 0 ''Admin'' ''u'' 9 \<lparr>data_tbl = [(''p1'', 3, 60)], log_tbl = []\<rparr>)
     = Inl AmountIllegalError \<and>
   fst (set_op ''p1'' (-1) ''Admin'' ''u'' 9 \<lparr>data_tbl = [(''p1'', 3, 60)], log_tbl = []\<rparr>)
     = Inl AmountIllegalError \<and>
   fst (transfer ''p1'' ''p1'' 0 ''u'' 9 \<lparr>data_tbl = [(''p1'', 3, 60)], log_tbl = []\<rparr>)
     = Inl AmountIllegalError \<and>
   fst (take_op ''p1'' 1000 ''Admin'' ''u'' 9 \<lparr>data_tbl = [(''p1'', 3, 60)], log_tbl = []\<rparr>)
     = Inl InsufficientBalanceError \<and>
   fst (transfer ''p1'' ''p1'' 1000 ''u'' 9 \<lparr>data_tbl = [(''p1'', 3, 60)], log_tbl = []\<rparr>)
     = Inl InsufficientBalanceError"
proof -
  let ?v = "\<lparr>data_tbl = [(''p1'', 3, 60)], log_tbl = []\<rparr>"
  have ghost: "\<not> is_account ?v ''ghost''" and p1: "is_account ?v ''p1''"
    by (simp_all add: is_account_def get_all_data_def)
  have bal: "get_balance ?v ''p1'' = Inr 60"
    by (simp add: api_defs)
  show ?thesis
    using ghost p1 bal
      validation_order [of ?v "''ghost''" "-1" "''Admin''" "''u''" 9 "''p1''" "''ghost''" 60]
      validation_order [of ?v "''p1''" 0 "''Admin''" "''u''" 9 "''p1''" "''p1''" 60]
      validation_order [of ?v "''p1''" "-1" "''Admin''" "''u''" 9 "''p1''" "''p1''" 60]
      validation_order [of ?v "''p1''" 1000 "''Admin''" "''u''" 9 "''p1''" "''p1''" 60]
    by simp
qed







text \<open>
  Between two different accounts, a transfer that passes validation moves the amount:
  the debit side loses it, the credit side gains it, so the sum of the two balances is
  conserved, and one log row is appended.
\<close>

lemma transfer_conserves_distinct:
  assumes schema: "schema_ok v" and neq: "debit \<noteq> credit"
    and bd: "get_balance v debit = Inr bd" and bc: "get_balance v credit = Inr bc"
    and pos: "0 < amount" and funds: "amount \<le> bd"
    and fresh: "uid \<notin> fst ` set (log_tbl v)"
  shows "fst (transfer debit credit amount uid now v) = Inr () \<and>
         get_balance (snd (transfer debit credit amount uid now v)) debit = Inr (bd - amount) \<and>
         get_balance (snd (transfer debit credit amount uid now v)) credit = Inr (bc + amount) \<and>
         get_logs (snd (transfer debit credit amount uid now v))
           = get_logs v @ [(uid, now, debit, credit, amount)]"
proof -
  have accd: "is_account v debit" and accc: "is_account v credit"
    using bd bc by (auto simp: get_balance_def split: if_splits)
  have rd: "get_balance_raw v debit = Inr bd" and rc: "get_balance_raw v credit = Inr bc"
    using bd bc accd accc by (simp_all add: get_balance_def)
  have c0: "0 \<le> bc + amount"
    using schema_balance [OF schema rc] pos by simp
  define v' where "v' = v\<lparr>data_tbl := update_rows credit (bc + amount)
                                          (update_rows debit (bd - amount) (data_tbl v)),
                           log_tbl := log_tbl v @ [(uid, now, debit, credit, amount)]\<rparr>"
  have eq: "transfer debit credit amount uid now v = (Inr (), v')"
    unfolding v'_def using accd accc pos rd funds rc c0 fresh by (rule transfer_success)
  have acc': "is_account v' debit" "is_account v' credit"
    using accd accc by (simp_all add: v'_def is_account_def get_all_data_rows update_keys)
  have "get_balance_raw v' debit = Inr (bd - amount)"
    using rd neq by (simp add: v'_def get_balance_raw_def get_all_data_rows update_map_of
                          split: option.splits)
  moreover have "get_balance_raw v' credit = Inr (bc + amount)"
    using rc neq by (simp add: v'_def get_balance_raw_def get_all_data_rows update_map_of
                          split: option.splits)
  moreover have "log_tbl v' = log_tbl v @ [(uid, now, debit, credit, amount)]"
    by (simp add: v'_def)
  ultimately show ?thesis
    using acc' by (simp add: eq get_balance_def get_logs_def get_log_def)
qed

text \<open>
  C1. Conservation fails when \<open>debit = credit\<close>. \<open>transfer\<close> reads both old balances before it
  writes: the second write, \<open>credit_old + amount\<close>, replaces the first. A transfer of
  40 from an account holding 100 to itself passes validation, leaves 140 on the account
  and appends one log row; the two sides sum to 280 after the call and to 200 before it.
\<close>

theorem transfer_to_self_adds_amount:
  "transfer ''a'' ''a'' 40 ''u'' 9 \<lparr>data_tbl = [(''a'', 3, 100)], log_tbl = []\<rparr> =
     (Inr (), \<lparr>data_tbl = [(''a'', 3, 140)], log_tbl = [(''u'', 9, ''a'', ''a'', 40)]\<rparr>) \<and>
   get_balance \<lparr>data_tbl = [(''a'', 3, 100)], log_tbl = []\<rparr> ''a'' = Inr 100 \<and>
   get_balance (snd (transfer ''a'' ''a'' 40 ''u'' 9 \<lparr>data_tbl = [(''a'', 3, 100)], log_tbl = []\<rparr>)) ''a''
     = Inr 140"
  by (simp add: api_defs)






text \<open>
  C8. On a stored state (account names are a primary key), \<open>get_ranking\<close> lists every
  existing account with its balance and lists no name twice; the balances go down along
  the list; and the accounts of one and the same balance stand in the order of their
  rows, which is the order of their creation.
\<close>

theorem get_ranking_sorted_stable:
  assumes schema: "schema_ok v"
  shows "distinct (map fst (get_ranking v)) \<and>
         ((n, b) \<in> set (get_ranking v) \<longleftrightarrow> get_balance v n = Inr b) \<and>
         sorted_wrt (\<lambda>x y. x \<ge> y) (map snd (get_ranking v)) \<and>
         filter (\<lambda>d. snd d = b) (get_ranking v)
           = filter (\<lambda>d. snd d = b) (map (\<lambda>(n, t, b). (n, b)) (data_tbl v))"
proof -
  let ?items = "map (\<lambda>(n, t, b). (n, b)) (data_tbl v)"
  have keys: "fst \<circ> (\<lambda>(n, t, b). (n, b)) = (fst :: data_row \<Rightarrow> string)"
    by (auto simp: fun_eq_iff)
  have dist: "distinct (map fst (data_tbl v))"
    using schema by (simp add: schema_ok_def)
  have d_items: "distinct (map fst ?items)"
    using dist by (simp add: keys)
  then have "distinct ?items \<and> inj_on fst (set ?items)"
    by (simp only: distinct_map)
  then have "distinct (sorted_reverse snd ?items) \<and> inj_on fst (set (sorted_reverse snd ?items))"
    by (simp add: sorted_reverse_distinct sorted_reverse_set)
  then have c1: "distinct (map fst (get_ranking v))"
    by (simp only: get_ranking_items distinct_map)
  have "(n, b) \<in> set ?items \<longleftrightarrow> (\<exists>t. (n, t, b) \<in> set (data_tbl v))"
    by force
  also have "\<dots> \<longleftrightarrow> (\<exists>t. map_of (data_tbl v) n = Some (t, b))"
    using dist by (auto dest: map_of_SomeD)
  also have "\<dots> \<longleftrightarrow> get_balance v n = Inr b"
    by (auto simp: get_balance_map_of split: option.splits)
  finally have c2: "(n, b) \<in> set (get_ranking v) \<longleftrightarrow> get_balance v n = Inr b"
    by (simp add: get_ranking_items sorted_reverse_set)
  have c3: "sorted_wrt (\<lambda>x y. x \<ge> y) (map snd (get_ranking v))"
    unfolding get_ranking_items by (rule sorted_reverse_descending)
  have c4: "filter (\<lambda>d. snd d = b) (get_ranking v) = filter (\<lambda>d. snd d = b) ?items"
    unfolding get_ranking_items by (rule sorted_reverse_stable)
  from c1 c2 c3 c4 show ?thesis by blast
qed

theorem get_ranking_sorted_stable_witness:
  "schema_ok \<lparr>data_tbl = [(''c'', 1, 5), (''a'', 2, 10), (''b'', 3, 10)], log_tbl = []\<rparr> \<and>
   get_ranking \<lparr>data_tbl = [(''c'', 1, 5), (''a'', 2, 10), (''b'', 3, 10)], log_tbl = []\<rparr>
     = [(''a'', 10), (''b'', 10), (''c'', 5)] \<and>
   filter (\<lambda>d. snd d = 10)
     (get_ranking \<lparr>data_tbl = [(''c'', 1, 5), (''a'', 2, 10), (''b'', 3, 10)], log_tbl = []\<rparr>)
     = [(''a'', 10), (''b'', 10)]"
proof -
  let ?v = "\<lparr>data_tbl = [(''c'', 1, 5), (''a'', 2, 10), (''b'', 3, 10)], log_tbl = []\<rparr>"
  have schema: "schema_ok ?v"
    by (simp add: schema_ok_def)
  have rank: "get_ranking ?v = [(''a'', 10), (''b'', 10), (''c'', 5)]"
    by (simp add: get_ranking_def get_all_data_def sorted_reverse_def)
  have "filter (\<lambda>d. snd d = 10) (get_ranking ?v)
          = filter (\<lambda>d. snd d = 10) (map (\<lambda>(n, t, b). (n, b)) (data_tbl ?v))"
    using get_ranking_sorted_stable [OF schema, of _ 10] by blast
  then have "filter (\<lambda>d. snd d = 10) (get_ranking ?v) = [(''a'', 10), (''b'', 10)]"
    by simp
  with schema rank show ?thesis by blast
qed

end
